theory Spec2Isabelle
  imports Main
begin

section \<open>The Traindown session builder (parser.go)\<close>

text \<open>
  A shallow embedding of \<^verbatim>\<open>src/parser.go\<close>: the data model (Performance, Movement,
  Session), the two numeric helpers, the token loop of \<^verbatim>\<open>parse\<close> and the two entry
  points \<^verbatim>\<open>ParseByte\<close> and \<^verbatim>\<open>ParseString\<close>.

  Go strings and byte slices are both sequences of bytes; they are modelled as
  \<^typ>\<open>string\<close> (a list of 8-bit characters). A Go \<^verbatim>\<open>int\<close> is modelled as \<^typ>\<open>int\<close>: the
  builder does no arithmetic on it, and the only producer of such values, \<^verbatim>\<open>strconv.Atoi\<close>,
  is modelled with its 64-bit range check.

  Two types are left abstract, because their values come from outside the file:
  \<^item> \<open>'f\<close> stands for \<^verbatim>\<open>float32\<close> values up to the numeric comparison \<^verbatim>\<open>==\<close>; its \<open>0\<close> is
    the value that \<^verbatim>\<open>!= 0.0\<close> tests against (the only float operation of the file);
  \<^item> \<open>'t\<close> stands for the instants that \<^verbatim>\<open>dateparse.ParseAny\<close> returns.
\<close>

subsection \<open>Errors and panics\<close>

text \<open>
  The error values of the file, one constructor for each \<^verbatim>\<open>fmt.Errorf\<close> format string, and
  \<open>Foreign\<close> for an error value produced outside the file (the lexer, the date library).
\<close>

datatype error =
    Foreign string
  | FailedToParseField string string
  | FailedToParseDate error
  | FailedToParse error

text \<open>A run-time panic of the Go program: an index expression outside the slice.\<close>

datatype panic = IndexOutOfRange nat nat

subsection \<open>Data model\<close>

type_synonym Metadata = "string \<rightharpoonup> string"

record 'f Performance =
  p_fails :: int
  p_load :: 'f
  p_percentOfMax :: 'f
  p_reps :: int
  p_sequence :: int
  p_sets :: int
  p_unit :: string
  p_metadata :: Metadata
  p_notes :: "string list"

definition NewPerformance :: "('f::zero) Performance" where
  "NewPerformance =
     \<lparr>p_fails = 0, p_load = 0, p_percentOfMax = 0, p_reps = 1, p_sequence = 0, p_sets = 1,
      p_unit = [], p_metadata = Map.empty, p_notes = []\<rparr>"

record 'f Movement =
  m_name :: string
  m_sequence :: int
  m_superSet :: bool
  m_performances :: "'f Performance list"
  m_metadata :: Metadata
  m_notes :: "string list"

definition NewMovement :: "'f Movement" where
  "NewMovement =
     \<lparr>m_name = [], m_sequence = 0, m_superSet = False, m_performances = [],
      m_metadata = Map.empty, m_notes = []\<rparr>"

text \<open>
  The date of a session is the zero \<^verbatim>\<open>time.Time\<close>, an instant returned by the date library,
  or a reading of the wall clock (\<^verbatim>\<open>time.Now()\<close>). The reading is not a function of the
  input, so the model records that the clock was read, not which instant it gave.
\<close>

datatype 't Time = ZeroTime | Instant 't | Now

record ('f, 't) Session =
  s_date :: "'t Time"
  s_errors :: "error list"
  s_movements :: "'f Movement list"
  s_metadata :: Metadata
  s_notes :: "string list"

definition NewSession :: "('f, 't) Session" where
  "NewSession =
     \<lparr>s_date = ZeroTime, s_errors = [], s_movements = [], s_metadata = Map.empty,
      s_notes = []\<rparr>"

text \<open>
  \<^verbatim>\<open>&Session{}\<close>, the zero value that accompanies an error of the entry points: its maps
  and slices are nil, which reads like empty ones.
\<close>

definition ZeroSession :: "('f, 't) Session" where
  "ZeroSession =
     \<lparr>s_date = ZeroTime, s_errors = [], s_movements = [], s_metadata = Map.empty,
      s_notes = []\<rparr>"

subsection \<open>Tokens and the collaborators outside the file\<close>

text \<open>A token of the lexer, read through its methods \<^verbatim>\<open>Name()\<close> and \<^verbatim>\<open>Value()\<close>.\<close>

record Token =
  Name :: string
  Value :: string

text \<open>
  What the file calls and does not define: \<^verbatim>\<open>strconv.ParseFloat(s, 32)\<close> followed by the
  conversion to \<^verbatim>\<open>float32\<close> (\<open>None\<close> when it returns an error), \<^verbatim>\<open>dateparse.ParseAny\<close>,
  and the lexer: \<^verbatim>\<open>NewLexer()\<close> returns an error or a lexer, and a lexer is used through
  its method \<^verbatim>\<open>Scan\<close> only.
\<close>

type_synonym Lexer = "string \<Rightarrow> error + Token list"

record ('f, 't) externals =
  ParseFloat32 :: "string \<Rightarrow> 'f option"
  ParseAny :: "string \<Rightarrow> error + 't"
  NewLexer :: "error + Lexer"

subsection \<open>The library functions on strings\<close>

text \<open>
  \<^verbatim>\<open>strconv.Atoi\<close>: an optional sign, then at least one decimal digit and nothing else,
  and the value must fit the 64-bit \<^verbatim>\<open>int\<close>. \<open>None\<close> is a non-nil error.
\<close>

definition is_digit :: "char \<Rightarrow> bool" where
  "is_digit c \<longleftrightarrow> c \<in> set ''0123456789''"

definition digit_val :: "char \<Rightarrow> int" where
  "digit_val c = int (of_char c) - 48"

definition Atoi :: "string \<Rightarrow> int option" where
  "Atoi str =
     (let neg = (case str of [] \<Rightarrow> False | c # _ \<Rightarrow> c = CHR ''-'');
          ds = (case str of [] \<Rightarrow> []
                | c # r \<Rightarrow> if c = CHR ''+'' \<or> c = CHR ''-'' then r else str)
      in if ds = [] then None
         else if list_all is_digit ds then
           (let n = foldl (\<lambda>a c. 10 * a + digit_val c) 0 ds;
                v = (if neg then - n else n)
            in if v < - (2 ^ 63) \<or> 2 ^ 63 \<le> v then None else Some v)
         else None)"

text \<open>
  \<^verbatim>\<open>strings.Split(s, sep)\<close> for a separator of one character: the pieces between the
  occurrences of the separator, all of them; a string without separator gives one piece.
\<close>

fun Split :: "string \<Rightarrow> char \<Rightarrow> string list" where
  "Split [] sep = [[]]"
| "Split (c # cs) sep =
     (if c = sep then [] # Split cs sep
      else (case Split cs sep of [] \<Rightarrow> [[c]] | w # ws \<Rightarrow> (c # w) # ws))"

text \<open>\<^verbatim>\<open>strings.Trim(s, cutset)\<close>: the leading and trailing characters of the cutset removed.\<close>

definition Trim :: "string \<Rightarrow> string \<Rightarrow> string" where
  "Trim str cutset =
     rev (dropWhile (\<lambda>c. c \<in> set cutset) (rev (dropWhile (\<lambda>c. c \<in> set cutset) str)))"

subsection \<open>The numeric helpers\<close>

text \<open>Both return Go's pair of a value and an error; the value is 0 beside an error.\<close>

definition floatValue :: "('f::zero, 't) externals \<Rightarrow> string \<Rightarrow> string \<Rightarrow> 'f \<times> error option" where
  "floatValue ext str t =
     (case ParseFloat32 ext str of
        None \<Rightarrow> (0, Some (FailedToParseField t str))
      | Some f \<Rightarrow> (f, None))"

definition intValue :: "string \<Rightarrow> string \<Rightarrow> int \<times> error option" where
  "intValue str t =
     (case Atoi str of
        None \<Rightarrow> (0, Some (FailedToParseField t str))
      | Some i \<Rightarrow> (i, None))"

subsection \<open>The builder\<close>

text \<open>
  The local variables of \<^verbatim>\<open>parse\<close>: the current movement, performance and session and
  the two flags. Every pointer that \<^verbatim>\<open>parse\<close> appends to a list is replaced by a fresh
  object before the next write, so values stand for the pointers.
\<close>

record ('f, 't) builder =
  cur_m :: "'f Movement"
  cur_p :: "'f Performance"
  cur_s :: "('f, 't) Session"
  inSession :: bool
  inPerformance :: bool

definition initial :: "('f::zero, 't) builder" where
  "initial =
     \<lparr>cur_m = NewMovement, cur_p = NewPerformance, cur_s = NewSession,
      inSession = True, inPerformance = False\<rparr>"

text \<open>\<^verbatim>\<open>s.Errors = append(s.Errors, err)\<close> when \<^verbatim>\<open>err != nil\<close>.\<close>

definition record_error :: "error option \<Rightarrow> ('f, 't) builder \<Rightarrow> ('f, 't) builder" where
  "record_error err b =
     (case err of
        None \<Rightarrow> b
      | Some e \<Rightarrow> b\<lparr>cur_s := (cur_s b)\<lparr>s_errors := s_errors (cur_s b) @ [e]\<rparr>\<rparr>)"

text \<open>\<^verbatim>\<open>m.Performances = append(m.Performances, p); p = NewPerformance()\<close>.\<close>

definition flush_performance :: "('f::zero, 't) builder \<Rightarrow> ('f, 't) builder" where
  "flush_performance b =
     b\<lparr>cur_m := (cur_m b)\<lparr>m_performances := m_performances (cur_m b) @ [cur_p b]\<rparr>,
       cur_p := NewPerformance\<rparr>"

text \<open>\<^verbatim>\<open>s.Movements = append(s.Movements, m); m = NewMovement()\<close>.\<close>

definition flush_movement :: "('f, 't) builder \<Rightarrow> ('f, 't) builder" where
  "flush_movement b =
     b\<lparr>cur_s := (cur_s b)\<lparr>s_movements := s_movements (cur_s b) @ [cur_m b]\<rparr>,
       cur_m := NewMovement\<rparr>"

text \<open>
  One round of the loop: the \<^verbatim>\<open>switch\<close> on the name of the token, in the order of the
  source. The METADATA case indexes the result of \<^verbatim>\<open>strings.Split\<close> at 0 and at 1; the
  second index panics when the value has no colon.
\<close>

definition parse_token ::
  "('f::zero, 't) externals \<Rightarrow> ('f, 't) builder \<Rightarrow> Token \<Rightarrow> panic + ('f, 't) builder" where
  "parse_token ext b tok =
     (if Name tok = ''DATE'' then
        (case ParseAny ext (Value tok) of
           Inl err \<Rightarrow>
             Inr (b\<lparr>cur_s := (cur_s b)\<lparr>s_errors := s_errors (cur_s b) @ [FailedToParseDate err],
                                        s_date := Now\<rparr>\<rparr>)
         | Inr d \<Rightarrow> Inr (b\<lparr>cur_s := (cur_s b)\<lparr>s_date := Instant d\<rparr>\<rparr>))
      else if Name tok = ''FAILS'' then
        (let (i, err) = intValue (Value tok) ''fails'';
             b1 = record_error err b
         in Inr (b1\<lparr>cur_p := (cur_p b1)\<lparr>p_fails := i\<rparr>\<rparr>))
      else if Name tok = ''LOAD'' then
        (let b1 = (if inPerformance b then flush_performance b else b);
             (f, err) = floatValue ext (Value tok) ''load'';
             b2 = record_error err b1
         in Inr (b2\<lparr>cur_p := (cur_p b2)\<lparr>p_load := f\<rparr>, inPerformance := True\<rparr>))
      else if Name tok = ''METADATA'' then
        (case Split (Value tok) (CHR '':'') of
           p0 # p1 # _ \<Rightarrow>
             (let key = Trim p0 '' ''; val = Trim p1 '' ''
              in if inSession b then
                   Inr (b\<lparr>cur_s := (cur_s b)\<lparr>s_metadata := (s_metadata (cur_s b))(key \<mapsto> val)\<rparr>\<rparr>)
                 else if inPerformance b then
                   Inr (b\<lparr>cur_p := (cur_p b)\<lparr>p_metadata := (p_metadata (cur_p b))(key \<mapsto> val)\<rparr>\<rparr>)
                 else
                   Inr (b\<lparr>cur_m := (cur_m b)\<lparr>m_metadata := (m_metadata (cur_m b))(key \<mapsto> val)\<rparr>\<rparr>))
         | pair \<Rightarrow> Inl (IndexOutOfRange 1 (length pair)))
      else if Name tok = ''MOVEMENT'' \<or> Name tok = ''MOVEMENT_SS'' then
        (let b1 = b\<lparr>inSession := False\<rparr>;
             b2 = (if inPerformance b1 then flush_performance b1 else b1);
             b3 = b2\<lparr>inPerformance := False\<rparr>;
             b4 = (if m_name (cur_m b3) \<noteq> [] then flush_movement b3 else b3);
             b5 = b4\<lparr>cur_m := (cur_m b4)\<lparr>m_name := Value tok\<rparr>\<rparr>
         in if Name tok = ''MOVEMENT_SS''
            then Inr (b5\<lparr>cur_m := (cur_m b5)\<lparr>m_superSet := True\<rparr>\<rparr>)
            else Inr b5)
      else if Name tok = ''NOTE'' then
        (if inSession b then
           Inr (b\<lparr>cur_s := (cur_s b)\<lparr>s_notes := s_notes (cur_s b) @ [Value tok]\<rparr>\<rparr>)
         else if inPerformance b then
           Inr (b\<lparr>cur_p := (cur_p b)\<lparr>p_notes := p_notes (cur_p b) @ [Value tok]\<rparr>\<rparr>)
         else
           Inr (b\<lparr>cur_m := (cur_m b)\<lparr>m_notes := m_notes (cur_m b) @ [Value tok]\<rparr>\<rparr>))
      else if Name tok = ''REPS'' then
        (let (i, err) = intValue (Value tok) ''reps'';
             b1 = record_error err b
         in Inr (b1\<lparr>cur_p := (cur_p b1)\<lparr>p_reps := i\<rparr>\<rparr>))
      else if Name tok = ''SETS'' then
        (let (i, err) = intValue (Value tok) ''sets'';
             b1 = record_error err b
         in Inr (b1\<lparr>cur_p := (cur_p b1)\<lparr>p_sets := i\<rparr>\<rparr>))
      else Inr b)"

text \<open>The \<^verbatim>\<open>for ... range tokens\<close> loop; a panic ends it.\<close>

fun parse_tokens ::
  "('f::zero, 't) externals \<Rightarrow> ('f, 't) builder \<Rightarrow> Token list \<Rightarrow> panic + ('f, 't) builder" where
  "parse_tokens ext b [] = Inr b"
| "parse_tokens ext b (tok # toks) =
     (case parse_token ext b tok of
        Inl pn \<Rightarrow> Inl pn
      | Inr b' \<Rightarrow> parse_tokens ext b' toks)"

text \<open>The two statements after the loop.\<close>

definition finish :: "('f::zero, 't) builder \<Rightarrow> ('f, 't) builder" where
  "finish b =
     (let b1 = (if p_load (cur_p b) \<noteq> 0
                then b\<lparr>cur_m := (cur_m b)\<lparr>m_performances := m_performances (cur_m b) @ [cur_p b]\<rparr>\<rparr>
                else b)
      in if m_name (cur_m b1) \<noteq> []
         then b1\<lparr>cur_s := (cur_s b1)\<lparr>s_movements := s_movements (cur_s b1) @ [cur_m b1]\<rparr>\<rparr>
         else b1)"

text \<open>\<^verbatim>\<open>parse\<close> returns the session and a nil error, unless the loop panicked.\<close>

definition parse ::
  "('f::zero, 't) externals \<Rightarrow> Token list \<Rightarrow> panic + (('f, 't) Session \<times> error option)" where
  "parse ext tokens =
     (case parse_tokens ext initial tokens of
        Inl pn \<Rightarrow> Inl pn
      | Inr b \<Rightarrow> Inr (cur_s (finish b), None))"

subsection \<open>The entry points\<close>

definition ParseByte ::
  "('f::zero, 't) externals \<Rightarrow> string \<Rightarrow> panic + (('f, 't) Session \<times> error option)" where
  "ParseByte ext txt =
     (case NewLexer ext of
        Inl err \<Rightarrow> Inr (ZeroSession, Some err)
      | Inr lexer \<Rightarrow>
          (case lexer txt of
             Inl err \<Rightarrow> Inr (ZeroSession, Some (FailedToParse err))
           | Inr tokens \<Rightarrow>
               (case parse ext tokens of
                  Inl pn \<Rightarrow> Inl pn
                | Inr (s, Some err) \<Rightarrow> Inr (ZeroSession, Some (FailedToParse err))
                | Inr (s, None) \<Rightarrow> Inr (s, None))))"

text \<open>
  \<^verbatim>\<open>[]byte(txt)\<close> copies the bytes of the string: on the model's byte lists it is the
  identity.
\<close>

definition bytes_of :: "string \<Rightarrow> string" where
  "bytes_of txt = txt"

definition ParseString ::
  "('f::zero, 't) externals \<Rightarrow> string \<Rightarrow> panic + (('f, 't) Session \<times> error option)" where
  "ParseString ext txt =
     (case NewLexer ext of
        Inl err \<Rightarrow> Inr (ZeroSession, Some err)
      | Inr lexer \<Rightarrow>
          (case lexer (bytes_of txt) of
             Inl err \<Rightarrow> Inr (ZeroSession, Some (FailedToParse err))
           | Inr tokens \<Rightarrow>
               (case parse ext tokens of
                  Inl pn \<Rightarrow> Inl pn
                | Inr (s, Some err) \<Rightarrow> Inr (ZeroSession, Some (FailedToParse err))
                | Inr (s, None) \<Rightarrow> Inr (s, None))))"

subsection \<open>Sample collaborators and the loop invariant\<close>

text \<open>
  Collaborators for running the builder on concrete token lists: loads are written as
  whole numbers (read with \<open>Atoi\<close>), every non-empty date is understood, and the lexer
  turns a non-empty text into a single NOTE token.
\<close>

definition sample_externals :: "(int, string) externals" where
  "sample_externals =
     \<lparr>ParseFloat32 = Atoi,
      ParseAny = (\<lambda>str. if str = [] then Inl (Foreign ''empty date'') else Inr str),
      NewLexer = Inr (\<lambda>txt. if txt = [] then Inl (Foreign ''empty input'')
                              else Inr [\<lparr>Name = ''NOTE'', Value = txt\<rparr>])\<rparr>"

text \<open>
  The fields that no case of the \<^verbatim>\<open>switch\<close> assigns, as an invariant of the builder:
  on the open performance, on the open movement and its performances, and on the
  movements already appended to the session.
\<close>

definition untouched :: "('f::zero) Performance \<Rightarrow> bool" where
  "untouched p \<longleftrightarrow> p_sequence p = 0 \<and> p_unit p = [] \<and> p_percentOfMax p = 0"

definition unsequenced :: "('f::zero) Movement \<Rightarrow> bool" where
  "unsequenced m \<longleftrightarrow> m_sequence m = 0 \<and> list_all untouched (m_performances m)"

definition builder_inv :: "('f::zero, 't) builder \<Rightarrow> bool" where
  "builder_inv b \<longleftrightarrow>
     untouched (cur_p b) \<and> unsequenced (cur_m b) \<and> list_all unsequenced (s_movements (cur_s b))"

section \<open>Properties\<close>

subsection \<open>Facts about the library functions\<close>

lemma Split_unfold:
  "Split v sep =
     takeWhile (\<lambda>c. c \<noteq> sep) v #
       (if sep \<in> set v then Split (tl (dropWhile (\<lambda>c. c \<noteq> sep) v)) sep else [])"
  by (induction v) (auto split: list.splits)

lemma Split_no_separator: "sep \<notin> set v \<Longrightarrow> Split v sep = [v]"
  by (subst Split_unfold) auto

lemma Split_two:
  assumes "sep \<in> set v"
  shows "\<exists>ws. Split v sep =
           takeWhile (\<lambda>c. c \<noteq> sep) v #
           takeWhile (\<lambda>c. c \<noteq> sep) (tl (dropWhile (\<lambda>c. c \<noteq> sep) v)) # ws"
proof -
  let ?rest = "tl (dropWhile (\<lambda>c. c \<noteq> sep) v)"
  have "Split v sep = takeWhile (\<lambda>c. c \<noteq> sep) v # Split ?rest sep"
    using assms by (subst Split_unfold) simp
  moreover have "\<exists>ws. Split ?rest sep = takeWhile (\<lambda>c. c \<noteq> sep) ?rest # ws"
    by (subst Split_unfold) simp
  ultimately show ?thesis by auto
qed

lemma intValue_fails:
  "Atoi str = None \<Longrightarrow> intValue str t = (0, Some (FailedToParseField t str))"
  by (simp add: intValue_def)

lemma Atoi_abc: "Atoi ''abc'' = None"
  by (simp add: Atoi_def is_digit_def)

lemma Atoi_100: "Atoi ''100'' = Some 100"
  by (simp add: Atoi_def is_digit_def digit_val_def)

lemma Atoi_80: "Atoi ''80'' = Some 80"
  by (simp add: Atoi_def is_digit_def digit_val_def)

lemma Atoi_0: "Atoi ''0'' = Some 0"
  by (simp add: Atoi_def is_digit_def digit_val_def)

lemmas run_simps =
  parse_def parse_token_def sample_externals_def intValue_def floatValue_def
  record_error_def flush_performance_def flush_movement_def finish_def initial_def
  NewPerformance_def NewMovement_def NewSession_def Trim_def Let_def
  Atoi_abc Atoi_100 Atoi_80 Atoi_0

subsection \<open>A whole session\<close>

text \<open>
  A date, a squat of three sets of five at 100 and a bench press at 80: two movements in
  the order of the tokens, the second performance closed by the end of the stream with
  the constructor's one set of one repetition.
\<close>

lemma squat_and_bench:
  "parse sample_externals
     [\<lparr>Name = ''DATE'', Value = ''2023-01-15''\<rparr>,
      \<lparr>Name = ''MOVEMENT'', Value = ''Squat''\<rparr>, \<lparr>Name = ''LOAD'', Value = ''100''\<rparr>,
      \<lparr>Name = ''REPS'', Value = ''5''\<rparr>, \<lparr>Name = ''SETS'', Value = ''3''\<rparr>,
      \<lparr>Name = ''MOVEMENT'', Value = ''Bench''\<rparr>, \<lparr>Name = ''LOAD'', Value = ''80''\<rparr>] =
   Inr (NewSession\<lparr>s_date := Instant ''2023-01-15'',
          s_movements :=
            [NewMovement\<lparr>m_name := ''Squat'',
               m_performances := [NewPerformance\<lparr>p_load := 100, p_reps := 5, p_sets := 3\<rparr>]\<rparr>,
             NewMovement\<lparr>m_name := ''Bench'',
               m_performances := [NewPerformance\<lparr>p_load := 80\<rparr>]\<rparr>]\<rparr>, None)"
proof -
  have "Atoi ''5'' = Some 5" and "Atoi ''3'' = Some 3"
    by (simp_all add: Atoi_def is_digit_def digit_val_def)
  then show ?thesis
    by (simp add: run_simps)
qed

subsection \<open>Steps of the loop\<close>

lemma parse_token_METADATA_no_separator:
  "Name tok = ''METADATA'' \<Longrightarrow> CHR '':'' \<notin> set (Value tok) \<Longrightarrow>
   parse_token ext b tok = Inl (IndexOutOfRange 1 1)"
  by (simp add: parse_token_def Split_no_separator)


lemma parse_token_MOVEMENT:
  assumes "Name tok = ''MOVEMENT'' \<or> Name tok = ''MOVEMENT_SS''"
  shows "\<exists>b'. parse_token ext b tok = Inr b' \<and> \<not> inSession b' \<and> \<not> inPerformance b' \<and>
              s_metadata (cur_s b') = s_metadata (cur_s b) \<and>
              s_notes (cur_s b') = s_notes (cur_s b)"
  using assms
  by (auto simp: parse_token_def Let_def flush_performance_def flush_movement_def)

lemma parse_token_returns:
  assumes "Name tok = ''METADATA'' \<longrightarrow> CHR '':'' \<in> set (Value tok)"
  shows "\<exists>b'. parse_token ext b tok = Inr b'"
proof (cases "Name tok = ''METADATA''")
  case True
  then obtain p0 p1 ws where "Split (Value tok) (CHR '':'') = p0 # p1 # ws"
    using assms Split_two [of "CHR '':''" "Value tok"] by blast
  with True show ?thesis
    by (simp add: parse_token_def Let_def)
next
  case False
  then show ?thesis
    by (simp add: parse_token_def Let_def split: sum.splits prod.splits)
qed

lemma parse_tokens_returns:
  assumes "\<forall>tok \<in> set toks. Name tok = ''METADATA'' \<longrightarrow> CHR '':'' \<in> set (Value tok)"
  shows "\<exists>b'. parse_tokens ext b toks = Inr b'"
  using assms
proof (induction toks arbitrary: b)
  case Nil
  then show ?case by simp
next
  case (Cons tok toks)
  then obtain b1 where "parse_token ext b tok = Inr b1"
    using parse_token_returns [of tok ext b] by auto
  with Cons show ?case by simp
qed

text \<open>
  Away from the one panic, \<^verbatim>\<open>parse\<close> returns: a token list whose METADATA values all
  hold a colon gives a session and a nil error, whatever the other tokens hold.
\<close>

lemma parse_returns_when_metadata_has_separator:
  assumes "\<forall>tok \<in> set toks. Name tok = ''METADATA'' \<longrightarrow> CHR '':'' \<in> set (Value tok)"
  shows "\<exists>s. parse ext toks = Inr (s, None)"
  using parse_tokens_returns [OF assms, of ext initial] by (auto simp: parse_def)

subsection \<open>Malformed metadata\<close>

text \<open>
  C1, on the code: a single METADATA token whose value holds no colon. The claim asks for
  a recorded diagnostic and a normal return; the builder indexes the one-element result
  of the split at 1 and panics, with any collaborators.
\<close>

theorem metadata_without_separator_panics:
  "parse ext [\<lparr>Name = ''METADATA'', Value = ''tempo 3-1-1''\<rparr>] = Inl (IndexOutOfRange 1 1)"
  by (simp add: parse_def parse_token_def)

text \<open>
  C4, on the code: an otherwise valid session followed by one METADATA token without
  colon. The claim asks for the completed session with its diagnostics; the builder
  panics and the movement, load and repetitions read so far are lost.
\<close>

theorem one_bad_metadata_aborts_session:
  "parse ext
     [\<lparr>Name = ''MOVEMENT'', Value = ''Squat''\<rparr>, \<lparr>Name = ''LOAD'', Value = ''100''\<rparr>,
      \<lparr>Name = ''REPS'', Value = ''5''\<rparr>, \<lparr>Name = ''METADATA'', Value = ''felt heavy''\<rparr>]
   = Inl (IndexOutOfRange 1 1)"
  by (simp add: parse_def parse_token_def Let_def split: prod.splits)

subsection \<open>Counts that do not parse\<close>

text \<open>
  C2 as stated fails: the builder assigns the value returned by \<^verbatim>\<open>intValue\<close> whether or
  not there was an error, and that value is 0 beside an error. Here the repetitions of a
  fresh performance, 1 by the constructor, become 0.
\<close>

theorem unreadable_reps_counterexample:
  "p_reps (cur_p (initial :: (int, string) builder)) = 1 \<and>
   parse_token sample_externals initial \<lparr>Name = ''REPS'', Value = ''abc''\<rparr> =
     Inr (initial\<lparr>cur_s := NewSession\<lparr>s_errors := [FailedToParseField ''reps'' ''abc'']\<rparr>,
                  cur_p := NewPerformance\<lparr>p_reps := 0\<rparr>\<rparr>)"
  by (simp add: run_simps)

text \<open>
  C2, amended: for a FAILS, REPS or SETS token whose value is not an integer, the builder
  appends one diagnostic to the errors of the session, sets the corresponding field of
  the current performance to 0, changes nothing else, and goes on with the next token.
\<close>

theorem unreadable_count_zeroes_field:
  assumes "Atoi (Value tok) = None"
    and "Name tok = ''FAILS'' \<or> Name tok = ''REPS'' \<or> Name tok = ''SETS''"
  shows "\<exists>b'. parse_token ext b tok = Inr b' \<and>
              parse_tokens ext b (tok # toks) = parse_tokens ext b' toks \<and>
              cur_s b' = (cur_s b)\<lparr>s_errors := s_errors (cur_s b) @
                 [FailedToParseField
                    (if Name tok = ''FAILS'' then ''fails''
                     else if Name tok = ''REPS'' then ''reps'' else ''sets'') (Value tok)]\<rparr> \<and>
              cur_p b' =
                (if Name tok = ''FAILS'' then (cur_p b)\<lparr>p_fails := 0\<rparr>
                 else if Name tok = ''REPS'' then (cur_p b)\<lparr>p_reps := 0\<rparr>
                 else (cur_p b)\<lparr>p_sets := 0\<rparr>) \<and>
              cur_m b' = cur_m b \<and> inSession b' = inSession b \<and>
              inPerformance b' = inPerformance b"
  using assms
  by (auto simp: parse_token_def intValue_fails record_error_def)

theorem unreadable_count_zeroes_field_witness:
  "Atoi (Value \<lparr>Name = ''SETS'', Value = ''3x''\<rparr>) = None \<and>
   parse_tokens sample_externals initial
     [\<lparr>Name = ''SETS'', Value = ''3x''\<rparr>, \<lparr>Name = ''NOTE'', Value = ''belt''\<rparr>] =
   Inr (initial\<lparr>cur_s := NewSession\<lparr>s_errors := [FailedToParseField ''sets'' ''3x''],
                                      s_notes := [''belt'']\<rparr>,
                cur_p := NewPerformance\<lparr>p_sets := 0\<rparr>\<rparr>)"
proof -
  have h1: "Atoi (Value \<lparr>Name = ''SETS'', Value = ''3x''\<rparr>) = None"
    by (simp add: Atoi_def is_digit_def)
  have h2: "Name \<lparr>Name = ''SETS'', Value = ''3x''\<rparr> = ''FAILS'' \<or>
            Name \<lparr>Name = ''SETS'', Value = ''3x''\<rparr> = ''REPS'' \<or>
            Name \<lparr>Name = ''SETS'', Value = ''3x''\<rparr> = ''SETS''"
    by simp
  show ?thesis
    using h1 unreadable_count_zeroes_field
      [OF h1 h2, of sample_externals initial "[\<lparr>Name = ''NOTE'', Value = ''belt''\<rparr>]"]
    by (auto simp: run_simps)
qed

subsection \<open>Key and value of a metadata token\<close>

text \<open>
  Where the value holds exactly one colon the two pieces are the whole value: the key is
  the text before the colon and the stored value is all the text after it, both passed
  through \<^verbatim>\<open>strings.Trim(x, " ")\<close>, in the metadata of the scope that the flags select.
\<close>

lemma metadata_single_separator:
  assumes "Name tok = ''METADATA''" and "CHR '':'' \<in> set (Value tok)"
    and "CHR '':'' \<notin> set (tl (dropWhile (\<lambda>c. c \<noteq> CHR '':'') (Value tok)))"
  shows "\<exists>b'. parse_token ext b tok = Inr b' \<and>
              (if inSession b then s_metadata (cur_s b')
               else if inPerformance b then p_metadata (cur_p b')
               else m_metadata (cur_m b')) =
              (if inSession b then s_metadata (cur_s b)
               else if inPerformance b then p_metadata (cur_p b)
               else m_metadata (cur_m b))
                (Trim (takeWhile (\<lambda>c. c \<noteq> CHR '':'') (Value tok)) '' '' \<mapsto>
                 Trim (tl (dropWhile (\<lambda>c. c \<noteq> CHR '':'') (Value tok))) '' '')"
proof -
  let ?rest = "tl (dropWhile (\<lambda>c. c \<noteq> CHR '':'') (Value tok))"
  have "Split ?rest (CHR '':'') = [?rest]"
    using assms(3) by (rule Split_no_separator)
  then have "Split (Value tok) (CHR '':'') =
      [takeWhile (\<lambda>c. c \<noteq> CHR '':'') (Value tok), ?rest]"
    using assms(2) by (subst Split_unfold) simp
  then show ?thesis
    using assms(1) by (simp add: parse_token_def)
qed

text \<open>
  C3, on the code: a METADATA token whose value holds a second colon. The claim asks for
  the key \<open>url\<close> with the whole remaining text \<open>http://traindown.com\<close> as its value;
  \<^verbatim>\<open>strings.Split\<close> cuts at every colon, the builder reads the pieces 0 and 1 only, and
  the session stores \<open>http\<close>: the rest of the value is dropped and no diagnostic is
  recorded.
\<close>

theorem metadata_value_stops_at_second_separator:
  "parse sample_externals [\<lparr>Name = ''METADATA'', Value = ''url: http://traindown.com''\<rparr>] =
     Inr (NewSession\<lparr>s_metadata := [''url'' \<mapsto> ''http'']\<rparr>, None)"
  by (simp add: run_simps)

subsection \<open>Routing of notes and metadata\<close>

text \<open>
  C5: a NOTE token, and a METADATA token with its key and value (the pieces 0 and 1 of the
  split, which exist when the value holds a colon), changes exactly one scope, chosen by
  the two flags in a fixed order: the session while \<open>inSession\<close>, else the current
  performance while \<open>inPerformance\<close>, else the current movement. The result is the old
  builder with that one field extended; the other two scopes and the flags are as before.
\<close>

theorem scope_routing:
  "(Name tok = ''NOTE'' \<longrightarrow>
      parse_token ext b tok =
        Inr (if inSession b then
               b\<lparr>cur_s := (cur_s b)\<lparr>s_notes := s_notes (cur_s b) @ [Value tok]\<rparr>\<rparr>
             else if inPerformance b then
               b\<lparr>cur_p := (cur_p b)\<lparr>p_notes := p_notes (cur_p b) @ [Value tok]\<rparr>\<rparr>
             else
               b\<lparr>cur_m := (cur_m b)\<lparr>m_notes := m_notes (cur_m b) @ [Value tok]\<rparr>\<rparr>)) \<and>
   (Name tok = ''METADATA'' \<and> CHR '':'' \<in> set (Value tok) \<longrightarrow>
      parse_token ext b tok =
        (let key = Trim (Split (Value tok) (CHR '':'') ! 0) '' '';
             val = Trim (Split (Value tok) (CHR '':'') ! 1) '' ''
         in Inr (if inSession b then
                   b\<lparr>cur_s := (cur_s b)\<lparr>s_metadata := (s_metadata (cur_s b))(key \<mapsto> val)\<rparr>\<rparr>
                 else if inPerformance b then
                   b\<lparr>cur_p := (cur_p b)\<lparr>p_metadata := (p_metadata (cur_p b))(key \<mapsto> val)\<rparr>\<rparr>
                 else
                   b\<lparr>cur_m := (cur_m b)\<lparr>m_metadata := (m_metadata (cur_m b))(key \<mapsto> val)\<rparr>\<rparr>)))"
proof (intro conjI impI)
  assume "Name tok = ''NOTE''"
  then show "parse_token ext b tok =
        Inr (if inSession b then
               b\<lparr>cur_s := (cur_s b)\<lparr>s_notes := s_notes (cur_s b) @ [Value tok]\<rparr>\<rparr>
             else if inPerformance b then
               b\<lparr>cur_p := (cur_p b)\<lparr>p_notes := p_notes (cur_p b) @ [Value tok]\<rparr>\<rparr>
             else
               b\<lparr>cur_m := (cur_m b)\<lparr>m_notes := m_notes (cur_m b) @ [Value tok]\<rparr>\<rparr>)"
    by (simp add: parse_token_def)
next
  assume a: "Name tok = ''METADATA'' \<and> CHR '':'' \<in> set (Value tok)"
  then obtain p0 p1 ws where "Split (Value tok) (CHR '':'') = p0 # p1 # ws"
    using Split_two [of "CHR '':''" "Value tok"] by blast
  with a show "parse_token ext b tok =
        (let key = Trim (Split (Value tok) (CHR '':'') ! 0) '' '';
             val = Trim (Split (Value tok) (CHR '':'') ! 1) '' ''
         in Inr (if inSession b then
                   b\<lparr>cur_s := (cur_s b)\<lparr>s_metadata := (s_metadata (cur_s b))(key \<mapsto> val)\<rparr>\<rparr>
                 else if inPerformance b then
                   b\<lparr>cur_p := (cur_p b)\<lparr>p_metadata := (p_metadata (cur_p b))(key \<mapsto> val)\<rparr>\<rparr>
                 else
                   b\<lparr>cur_m := (cur_m b)\<lparr>m_metadata := (m_metadata (cur_m b))(key \<mapsto> val)\<rparr>\<rparr>))"
    by (simp add: parse_token_def Let_def)
qed

text \<open>
  The three scopes in turn: a note before any movement, a note after a movement and
  before a load, and a metadata pair after a load.
\<close>

theorem scope_routing_witness:
  "parse_token sample_externals initial \<lparr>Name = ''NOTE'', Value = ''slept well''\<rparr> =
     Inr (initial\<lparr>cur_s := NewSession\<lparr>s_notes := [''slept well'']\<rparr>\<rparr>) \<and>
   parse_token sample_externals (initial\<lparr>inSession := False\<rparr>)
       \<lparr>Name = ''NOTE'', Value = ''low bar''\<rparr> =
     Inr (initial\<lparr>inSession := False, cur_m := NewMovement\<lparr>m_notes := [''low bar'']\<rparr>\<rparr>) \<and>
   parse_token sample_externals (initial\<lparr>inSession := False, inPerformance := True\<rparr>)
       \<lparr>Name = ''METADATA'', Value = ''rpe: 8''\<rparr> =
     Inr (initial\<lparr>inSession := False, inPerformance := True,
                  cur_p := NewPerformance\<lparr>p_metadata := [''rpe'' \<mapsto> ''8'']\<rparr>\<rparr>)"
  using scope_routing [of "\<lparr>Name = ''NOTE'', Value = ''slept well''\<rparr>" sample_externals initial]
    scope_routing [of "\<lparr>Name = ''NOTE'', Value = ''low bar''\<rparr>" sample_externals
      "initial\<lparr>inSession := False\<rparr>"]
    scope_routing [of "\<lparr>Name = ''METADATA'', Value = ''rpe: 8''\<rparr>" sample_externals
      "initial\<lparr>inSession := False, inPerformance := True\<rparr>"]
  by (simp add: initial_def NewSession_def NewMovement_def NewPerformance_def Trim_def)

subsection \<open>The end of the token stream\<close>

text \<open>
  C6: when the loop has ended with the builder \<open>b\<close>, the open performance is appended to the
  open movement exactly when its load is not 0, and the open movement (with that
  performance or without) is appended to the movements of the session exactly when its
  name is not empty; nothing else changes, and \<open>parse\<close> returns that session with a nil
  error.
\<close>

theorem end_of_stream_flush:
  assumes "parse_tokens ext initial tokens = Inr b"
  shows "parse ext tokens = Inr (cur_s (finish b), None) \<and>
         cur_m (finish b) =
           (cur_m b)\<lparr>m_performances := m_performances (cur_m b) @
              (if p_load (cur_p b) \<noteq> 0 then [cur_p b] else [])\<rparr> \<and>
         cur_s (finish b) =
           (cur_s b)\<lparr>s_movements := s_movements (cur_s b) @
              (if m_name (cur_m b) \<noteq> [] then [cur_m (finish b)] else [])\<rparr>"
  using assms by (simp add: parse_def finish_def)

text \<open>
  A named movement with a load of 100 is appended with its performance; a named movement
  with no load is appended without one; a load with no movement is dropped with the
  unnamed movement.
\<close>

theorem end_of_stream_flush_witness:
  "parse sample_externals
     [\<lparr>Name = ''MOVEMENT'', Value = ''Squat''\<rparr>, \<lparr>Name = ''LOAD'', Value = ''100''\<rparr>] =
     Inr (NewSession\<lparr>s_movements :=
            [NewMovement\<lparr>m_name := ''Squat'',
                         m_performances := [NewPerformance\<lparr>p_load := 100\<rparr>]\<rparr>]\<rparr>, None) \<and>
   parse sample_externals [\<lparr>Name = ''MOVEMENT'', Value = ''Squat''\<rparr>] =
     Inr (NewSession\<lparr>s_movements := [NewMovement\<lparr>m_name := ''Squat''\<rparr>]\<rparr>, None) \<and>
   parse sample_externals [\<lparr>Name = ''LOAD'', Value = ''100''\<rparr>] = Inr (NewSession, None)"
proof -
  have h1: "parse_tokens sample_externals initial
      [\<lparr>Name = ''MOVEMENT'', Value = ''Squat''\<rparr>, \<lparr>Name = ''LOAD'', Value = ''100''\<rparr>] =
      Inr (initial\<lparr>cur_m := NewMovement\<lparr>m_name := ''Squat''\<rparr>,
                   cur_p := NewPerformance\<lparr>p_load := 100\<rparr>,
                   inSession := False, inPerformance := True\<rparr>)"
    by (simp add: run_simps)
  have h2: "parse_tokens sample_externals initial [\<lparr>Name = ''MOVEMENT'', Value = ''Squat''\<rparr>] =
      Inr (initial\<lparr>cur_m := NewMovement\<lparr>m_name := ''Squat''\<rparr>, inSession := False\<rparr>)"
    by (simp add: run_simps)
  have h3: "parse_tokens sample_externals initial [\<lparr>Name = ''LOAD'', Value = ''100''\<rparr>] =
      Inr (initial\<lparr>cur_p := NewPerformance\<lparr>p_load := 100\<rparr>, inPerformance := True\<rparr>)"
    by (simp add: run_simps)
  show ?thesis
    using end_of_stream_flush [OF h1] end_of_stream_flush [OF h2] end_of_stream_flush [OF h3]
    by (simp add: initial_def NewSession_def NewMovement_def NewPerformance_def)
qed

subsection \<open>Consecutive loads\<close>




subsection \<open>Leaving the session scope\<close>

lemma parse_token_outside_session:
  assumes "\<not> inSession b" and "parse_token ext b tok = Inr b'"
  shows "\<not> inSession b' \<and> s_metadata (cur_s b') = s_metadata (cur_s b) \<and>
         s_notes (cur_s b') = s_notes (cur_s b)"
  using assms
  by (auto simp: parse_token_def Let_def record_error_def flush_performance_def
      flush_movement_def split: if_splits sum.splits list.splits prod.splits option.splits)

lemma parse_tokens_outside_session:
  assumes "\<not> inSession b" and "parse_tokens ext b toks = Inr b'"
  shows "\<not> inSession b' \<and> s_metadata (cur_s b') = s_metadata (cur_s b) \<and>
         s_notes (cur_s b') = s_notes (cur_s b)"
  using assms
proof (induction toks arbitrary: b)
  case Nil
  then show ?case by simp
next
  case (Cons tok toks)
  then obtain b1 where b1: "parse_token ext b tok = Inr b1" "parse_tokens ext b1 toks = Inr b'"
    by (auto split: sum.splits)
  from parse_token_outside_session [OF Cons.prems(1) b1(1)] Cons.IH [OF _ b1(2)]
  show ?case by simp
qed

text \<open>
  C8: from a MOVEMENT or MOVEMENT_SS token on, whatever tokens follow, the builder is
  outside the session scope and the metadata and notes of the session are what they were
  when the movement token arrived. The token list \<open>toks\<close> is arbitrary, so this holds
  after every token that follows the movement token.
\<close>

theorem session_scope_never_reopens:
  assumes "Name mv = ''MOVEMENT'' \<or> Name mv = ''MOVEMENT_SS''"
    and "parse_tokens ext b (mv # toks) = Inr b'"
  shows "\<not> inSession b' \<and> s_metadata (cur_s b') = s_metadata (cur_s b) \<and>
         s_notes (cur_s b') = s_notes (cur_s b)"
proof -
  obtain b1 where b1: "parse_token ext b mv = Inr b1" "\<not> inSession b1"
    "s_metadata (cur_s b1) = s_metadata (cur_s b)" "s_notes (cur_s b1) = s_notes (cur_s b)"
    using parse_token_MOVEMENT [OF assms(1)] by blast
  then have "parse_tokens ext b1 toks = Inr b'"
    using assms(2) by simp
  from parse_tokens_outside_session [OF b1(2) this] b1(3,4) show ?thesis
    by simp
qed

theorem session_scope_never_reopens_witness:
  "parse_tokens sample_externals initial
     [\<lparr>Name = ''MOVEMENT_SS'', Value = ''Row''\<rparr>, \<lparr>Name = ''NOTE'', Value = ''strict''\<rparr>,
      \<lparr>Name = ''METADATA'', Value = ''grip: wide''\<rparr>] =
   Inr (initial\<lparr>cur_m := NewMovement\<lparr>m_name := ''Row'', m_superSet := True,
                   m_notes := [''strict''], m_metadata := [''grip'' \<mapsto> ''wide'']\<rparr>,
                inSession := False\<rparr>)"
proof -
  have h1: "Name \<lparr>Name = ''MOVEMENT_SS'', Value = ''Row''\<rparr> = ''MOVEMENT'' \<or>
            Name \<lparr>Name = ''MOVEMENT_SS'', Value = ''Row''\<rparr> = ''MOVEMENT_SS''"
    by simp
  have h2: "parse_tokens sample_externals initial
     (\<lparr>Name = ''MOVEMENT_SS'', Value = ''Row''\<rparr> #
      [\<lparr>Name = ''NOTE'', Value = ''strict''\<rparr>, \<lparr>Name = ''METADATA'', Value = ''grip: wide''\<rparr>]) =
     Inr (initial\<lparr>cur_m := NewMovement\<lparr>m_name := ''Row'', m_superSet := True,
                   m_notes := [''strict''], m_metadata := [''grip'' \<mapsto> ''wide'']\<rparr>,
                inSession := False\<rparr>)"
    by (simp add: run_simps)
  show ?thesis
    using session_scope_never_reopens [OF h1 h2] h2 by simp
qed

subsection \<open>The two entry points\<close>

text \<open>
  C9: for every text and every collaborators, \<open>ParseString\<close> on the text and \<open>ParseByte\<close>
  on the same bytes give the same outcome: the same session and error, or the same panic.
  The conversion \<^verbatim>\<open>[]byte(txt)\<close> hands the lexer the very bytes of the text, and nothing
  else differs between the two entry points. A date taken from the wall clock is the
  value \<open>Now\<close> on both sides, so the two sessions agree up to the instants the clock gave.
\<close>

theorem ParseString_is_ParseByte:
  "ParseString ext txt = ParseByte ext txt"
  unfolding ParseString_def ParseByte_def bytes_of_def by (rule refl)

subsection \<open>Fields that are never written\<close>

lemma builder_inv_initial: "builder_inv initial"
  by (simp add: builder_inv_def initial_def untouched_def unsequenced_def NewPerformance_def
      NewMovement_def NewSession_def)

lemma builder_inv_parse_token:
  assumes "builder_inv b" and "parse_token ext b tok = Inr b'"
  shows "builder_inv b'"
  using assms
  by (auto simp: parse_token_def Let_def record_error_def flush_performance_def
      flush_movement_def builder_inv_def untouched_def unsequenced_def NewPerformance_def
      NewMovement_def
      split: if_splits sum.splits list.splits prod.splits option.splits)

lemma builder_inv_parse_tokens:
  assumes "builder_inv b" and "parse_tokens ext b toks = Inr b'"
  shows "builder_inv b'"
  using assms
proof (induction toks arbitrary: b)
  case Nil
  then show ?case by simp
next
  case (Cons tok toks)
  then obtain b1 where b1: "parse_token ext b tok = Inr b1" "parse_tokens ext b1 toks = Inr b'"
    by (auto split: sum.splits)
  show ?case
    using Cons.IH [OF builder_inv_parse_token [OF Cons.prems(1) b1(1)] b1(2)] .
qed

lemma builder_inv_finish: "builder_inv b \<Longrightarrow> builder_inv (finish b)"
  by (simp add: builder_inv_def finish_def Let_def untouched_def unsequenced_def)

text \<open>
  C10: in every session that \<open>parse\<close> returns, each movement has sequence 0, and each
  performance of each movement has sequence 0, the empty unit and 0 as percentage of the
  maximum, the values of the constructors.
\<close>

theorem sequence_unit_percent_never_written:
  assumes "parse ext tokens = Inr (s, e)"
  shows "\<forall>m \<in> set (s_movements s).
           m_sequence m = 0 \<and>
           (\<forall>p \<in> set (m_performances m).
              p_sequence p = 0 \<and> p_unit p = [] \<and> p_percentOfMax p = 0)"
proof -
  obtain b where b: "parse_tokens ext initial tokens = Inr b" "s = cur_s (finish b)"
    using assms by (auto simp: parse_def split: sum.splits)
  have "builder_inv (finish b)"
    using builder_inv_finish [OF builder_inv_parse_tokens [OF builder_inv_initial b(1)]] .
  then show ?thesis
    using b(2) by (auto simp: builder_inv_def unsequenced_def untouched_def list_all_iff)
qed

theorem sequence_unit_percent_never_written_witness:
  "parse sample_externals
     [\<lparr>Name = ''MOVEMENT'', Value = ''Squat''\<rparr>, \<lparr>Name = ''LOAD'', Value = ''100''\<rparr>,
      \<lparr>Name = ''SETS'', Value = ''80''\<rparr>] =
     Inr (NewSession\<lparr>s_movements :=
            [NewMovement\<lparr>m_name := ''Squat'',
               m_performances := [NewPerformance\<lparr>p_load := 100, p_sets := 80\<rparr>]\<rparr>]\<rparr>, None) \<and>
   m_sequence (NewMovement\<lparr>m_name := ''Squat'',
      m_performances := [NewPerformance\<lparr>p_load := 100 :: int, p_sets := 80\<rparr>]\<rparr>) = 0 \<and>
   p_sequence (NewPerformance\<lparr>p_load := 100 :: int, p_sets := 80\<rparr>) = 0 \<and>
   p_unit (NewPerformance\<lparr>p_load := 100 :: int, p_sets := 80\<rparr>) = [] \<and>
   p_percentOfMax (NewPerformance\<lparr>p_load := 100 :: int, p_sets := 80\<rparr>) = 0"
proof -
  have h: "parse sample_externals
     [\<lparr>Name = ''MOVEMENT'', Value = ''Squat''\<rparr>, \<lparr>Name = ''LOAD'', Value = ''100''\<rparr>,
      \<lparr>Name = ''SETS'', Value = ''80''\<rparr>] =
     Inr (NewSession\<lparr>s_movements :=
            [NewMovement\<lparr>m_name := ''Squat'',
               m_performances := [NewPerformance\<lparr>p_load := 100, p_sets := 80\<rparr>]\<rparr>]\<rparr>, None)"
    by (simp add: run_simps)
  show ?thesis
    using sequence_unit_percent_never_written [OF h] h by simp
qed

end
